theory Spec2Isabelle
  imports Main
begin

section \<open>GeoPlot: from a state trajectory to a GeoJSON document\<close>

text \<open>
  A shallow embedding of \<^verbatim>\<open>geoplot.py\<close>: the constructor \<^verbatim>\<open>GeoPlot.__init__\<close>, the helper
  \<^verbatim>\<open>read_var\<close> and the method \<^verbatim>\<open>GeoPlot.render\<close>. Every exception the Python raises is a
  value \<open>Inl e\<close> of a sum type; the clock that \<^verbatim>\<open>render\<close> reads and the files it writes are
  explicit arguments and results. What numpy, pandas and the operating system do is not in
  the repository: the array conversion, the arithmetic of floats and the opening of files
  are parameters of the model, collected in a record of externals.
\<close>

subsection \<open>Errors and Python values\<close>

text \<open>
  The exceptions: the builtin ones by their names; \<open>OutOfBounds\<close> stands for the range errors
  of pandas (\<^verbatim>\<open>OutOfBoundsTimedelta\<close>, \<^verbatim>\<open>OutOfBoundsDatetime\<close>).
\<close>

datatype error = KeyError string | LookupError | IndexError | TypeError | ValueError
  | OutOfBounds | OSError

text \<open>
  A value bound to an option key. Python is dynamically typed: the constructor stores what it
  is given, a string, an integer or a float, without looking at it. Nothing is computed
  with a float in this theory: the type of floats is left unspecified.
\<close>

typedecl pyfloat

instantiation pyfloat :: equal
begin

definition equal_pyfloat :: "pyfloat \<Rightarrow> pyfloat \<Rightarrow> bool" where
  "equal_pyfloat x y \<longleftrightarrow> x = y"

instance
  by standard (simp add: equal_pyfloat_def)

end

datatype optval = Str string | Num int | Flt pyfloat

text \<open>
  What \<^verbatim>\<open>np.array(x).tolist()\<close> returns: a scalar for a 0-dimensional array, a list of such
  values otherwise. The scalars are left abstract (\<open>'a\<close>): the code moves them around and
  never computes with them.
\<close>

datatype 'a nd = Scalar 'a | Arr "'a nd list"

text \<open>\<^verbatim>\<open>np.array(x).flatten().tolist()\<close>: the scalars in row-major order, always a flat list.\<close>

fun flatten :: "'a nd \<Rightarrow> 'a list" where
  "flatten (Scalar a) = [a]"
| "flatten (Arr xs) = concat (map flatten xs)"

subsection \<open>Decimal numerals: \<^verbatim>\<open>str\<close> on integers\<close>

definition digit :: "int \<Rightarrow> char" where
  "digit d = ''0123456789'' ! nat (d mod 10)"

text \<open>The decimal digits of a non-negative integer, most significant first.\<close>

function str_digits :: "int \<Rightarrow> string" where
  "str_digits i = (if i < 10 then [digit i] else str_digits (i div 10) @ [digit i])"
  by pat_completeness auto
termination
  by (relation "measure nat") auto

declare str_digits.simps [simp del]

text \<open>\<^verbatim>\<open>str(i)\<close> for a Python integer.\<close>

definition str_int :: "int \<Rightarrow> string" where
  "str_int i = (if i < 0 then CHR ''-'' # str_digits (- i) else str_digits i)"

text \<open>\<^verbatim>\<open>f"{n:0wd}"\<close> for \<open>0 \<le> n\<close>: at least \<open>w\<close> digits, padded with zeros on the left.\<close>

definition zpad :: "nat \<Rightarrow> int \<Rightarrow> string" where
  "zpad w n = (let s = str_digits n in replicate (w - length s) CHR ''0'' @ s)"

subsection \<open>Timestamps\<close>

text \<open>
  A \<^verbatim>\<open>pd.Timestamp\<close> in UTC is a count of nanoseconds since 1970-01-01T00:00:00Z, and a
  \<^verbatim>\<open>pd.Timedelta\<close> a count of nanoseconds, both held in a signed 64-bit integer whose least
  value is set aside. Instants and durations are integers here, and \<open>in_range\<close> tells those
  that pandas can hold.
\<close>

type_synonym timestamp = int

definition in_range :: "int \<Rightarrow> bool" where
  "in_range x \<longleftrightarrow> - (2 ^ 63) < x \<and> x < 2 ^ 63"

text \<open>The nanoseconds of a whole number of seconds.\<close>

definition Timedelta_seconds :: "int \<Rightarrow> int" where
  "Timedelta_seconds s = s * 1000000000"

text \<open>
  The checked addition of a Timedelta to a Timestamp overflows when the sum of the two
  64-bit values is not a 64-bit value.
\<close>

definition add_overflows :: "int \<Rightarrow> int \<Rightarrow> bool" where
  "add_overflows a b \<longleftrightarrow> in_range a \<and> in_range b \<and> \<not> in_range (a + b)"

text \<open>
  The civil date of a day number (days since 1970-01-01) in the proleptic Gregorian calendar:
  year, month, day.
\<close>

definition civil_from_days :: "int \<Rightarrow> int \<times> int \<times> int" where
  "civil_from_days z0 =
     (let z = z0 + 719468;
          era = z div 146097;
          doe = z - era * 146097;
          yoe = (doe - doe div 1460 + doe div 36524 - doe div 146096) div 365;
          doy = doe - (365 * yoe + yoe div 4 - yoe div 100);
          mp = (5 * doy + 2) div 153;
          d = doy - (153 * mp + 2) div 5 + 1;
          m = (if mp < 10 then mp + 3 else mp - 9);
          y = yoe + era * 400 + (if m \<le> 2 then 1 else 0)
      in (y, m, d))"

text \<open>
  \<^verbatim>\<open>Timestamp.isoformat()\<close> of a UTC-aware timestamp: \<^verbatim>\<open>YYYY-MM-DDTHH:MM:SS\<close>, then the
  fraction of the second (absent when it is zero, six digits when it is a whole number of
  microseconds, nine digits otherwise), then the offset \<^verbatim>\<open>+00:00\<close>.
\<close>

definition isoformat :: "timestamp \<Rightarrow> string" where
  "isoformat t =
     (let secs = t div 1000000000;
          frac = t mod 1000000000;
          days = secs div 86400;
          sod = secs mod 86400;
          (y, m, d) = civil_from_days days
      in zpad 4 y @ ''-'' @ zpad 2 m @ ''-'' @ zpad 2 d @ ''T'' @
         zpad 2 (sod div 3600) @ '':'' @ zpad 2 (sod mod 3600 div 60) @ '':'' @
         zpad 2 (sod mod 60) @
         (if frac = 0 then ''''
          else if frac mod 1000 = 0 then ''.'' @ zpad 6 (frac div 1000)
          else ''.'' @ zpad 9 frac) @
         ''+00:00'')"

subsection \<open>Failing computations\<close>

text \<open>
  \<open>collect f xs\<close> evaluates \<open>f\<close> on the elements of \<open>xs\<close> from left to right, as a Python
  loop or comprehension that appends \<open>f x\<close> does: the first exception ends the evaluation.
\<close>

fun collect :: "('b \<Rightarrow> error + 'c) \<Rightarrow> 'b list \<Rightarrow> error + 'c list" where
  "collect f [] = Inr []"
| "collect f (x # xs) =
     (case f x of
        Inl e \<Rightarrow> Inl e
      | Inr y \<Rightarrow> (case collect f xs of Inl e \<Rightarrow> Inl e | Inr ys \<Rightarrow> Inr (y # ys)))"

text \<open>\<^verbatim>\<open>d[k]\<close> on a dict, \<^verbatim>\<open>xs[i]\<close> on a list with \<open>0 \<le> i\<close>, and \<^verbatim>\<open>xs[-1]\<close>.\<close>

definition dict_getitem :: "(string \<rightharpoonup> 'v) \<Rightarrow> string \<Rightarrow> error + 'v" where
  "dict_getitem d k = (case d k of None \<Rightarrow> Inl (KeyError k) | Some v \<Rightarrow> Inr v)"

definition list_getitem :: "'b list \<Rightarrow> nat \<Rightarrow> error + 'b" where
  "list_getitem xs i = (if i < length xs then Inr (xs ! i) else Inl IndexError)"

definition last_item :: "'b list \<Rightarrow> error + 'b" where
  "last_item xs = (if xs = [] then Inl IndexError else Inr (last xs))"

text \<open>
  \<^verbatim>\<open>x[i]\<close> on what \<^verbatim>\<open>tolist()\<close> returned: a scalar is not subscriptable (\<^verbatim>\<open>TypeError\<close>), a
  list raises \<^verbatim>\<open>IndexError\<close> out of range.
\<close>

fun nd_getitem :: "'a nd \<Rightarrow> nat \<Rightarrow> error + 'a nd" where
  "nd_getitem (Scalar a) i = Inl TypeError"
| "nd_getitem (Arr xs) i = list_getitem xs i"

subsection \<open>What the libraries and the operating system do\<close>

text \<open>
  \<^item> \<open>np_array x\<close>: what \<^verbatim>\<open>np.array(x).tolist()\<close> returns for a value \<open>x\<close> read from a
    snapshot, or the exception \<^verbatim>\<open>np.array(x)\<close> raises (a \<^verbatim>\<open>ValueError\<close> on a ragged
    value); the conversion may change the scalars (to the dtype of the array);
  \<^item> \<open>float_timedelta i x\<close>: the nanoseconds of \<^verbatim>\<open>pd.Timedelta(seconds=i * x)\<close> for a float
    \<open>x\<close>, or the exception it raises;
  \<^item> \<open>scalar_text a\<close>: the JSON text of the scalar \<open>a\<close>;
  \<^item> \<open>can_open p\<close>: whether \<^verbatim>\<open>open(p, "w")\<close> succeeds; it raises \<^verbatim>\<open>OSError\<close> otherwise. A
    write to an open file is taken to complete.
\<close>

record ('v, 'a) externals =
  np_array :: "'v \<Rightarrow> error + 'a nd"
  float_timedelta :: "nat \<Rightarrow> pyfloat \<Rightarrow> error + int"
  scalar_text :: "'a \<Rightarrow> string"
  can_open :: "string \<Rightarrow> bool"

subsection \<open>Configuration and construction\<close>

text \<open>
  The simulation configuration is the collaborator of section 6 of the specification: it
  exposes \<^verbatim>\<open>config["simulation_metadata"]\<close> with a name and two integer counts.
\<close>

record simulation_metadata =
  name :: string
  num_episodes :: int
  num_steps_per_episode :: int

record config =
  simulation_metadata :: simulation_metadata

record GeoPlot =
  config :: config
  cesium_token :: optval
  step_time :: optval
  entity_position :: optval
  entity_property :: optval
  visualization_type :: optval

text \<open>
  \<^verbatim>\<open>GeoPlot.__init__(self, config, options)\<close>. The five subscriptions of \<^verbatim>\<open>options\<close> are
  evaluated from left to right; the first missing key raises \<^verbatim>\<open>KeyError\<close>. Nothing looks at
  the values.
\<close>

definition init :: "config \<Rightarrow> (string \<rightharpoonup> optval) \<Rightarrow> error + GeoPlot" where
  "init cfg options =
     (case dict_getitem options ''cesium_token'' of Inl e \<Rightarrow> Inl e | Inr tok \<Rightarrow>
      case dict_getitem options ''step_time'' of Inl e \<Rightarrow> Inl e | Inr st \<Rightarrow>
      case dict_getitem options ''coordinates'' of Inl e \<Rightarrow> Inl e | Inr pos \<Rightarrow>
      case dict_getitem options ''feature'' of Inl e \<Rightarrow> Inl e | Inr prop \<Rightarrow>
      case dict_getitem options ''visualization_type'' of Inl e \<Rightarrow> Inl e | Inr vt \<Rightarrow>
      Inr \<lparr>config = cfg, cesium_token = tok, step_time = st, entity_position = pos,
           entity_property = prop, visualization_type = vt\<rparr>)"

definition required_keys :: "string list" where
  "required_keys = [''cesium_token'', ''step_time'', ''coordinates'', ''feature'',
                    ''visualization_type'']"

subsection \<open>Reading a field of a snapshot\<close>

text \<open>\<^verbatim>\<open>re.split("/", var)\<close>: the pieces between the separators, empty pieces included.\<close>

fun split_on :: "char \<Rightarrow> string \<Rightarrow> string list" where
  "split_on c [] = [[]]"
| "split_on c (x # xs) =
     (if x = c then [] # split_on c xs
      else (case split_on c xs of [] \<Rightarrow> [[x]] | p # ps \<Rightarrow> (x # p) # ps))"

text \<open>
  A state snapshot is opaque to \<^verbatim>\<open>render\<close>, which only reads values from it along paths. It
  is modelled by what it holds at each path: a partial map from segment lists to values of
  a type \<open>'v\<close> (tensors, arrays, nested lists).
\<close>

type_synonym 'v snapshot = "string list \<rightharpoonup> 'v"

text \<open>
  Modelled from the spec: the accessor \<^verbatim>\<open>get_by_path\<close> of \<^verbatim>\<open>agent_torch.core.helpers\<close>, which
  is not part of the repository. Section 4.1: it returns the nested value reachable by
  following the segments, or fails with a LookupError-kind condition.
\<close>

definition get_by_path :: "'v snapshot \<Rightarrow> string list \<Rightarrow> error + 'v" where
  "get_by_path state path = (case state path of None \<Rightarrow> Inl LookupError | Some a \<Rightarrow> Inr a)"

text \<open>
  \<^verbatim>\<open>read_var(state, var)\<close>. \<^verbatim>\<open>re.split\<close> raises \<^verbatim>\<open>TypeError\<close> on a path that is not a
  string.
\<close>

fun read_var :: "'v snapshot \<Rightarrow> optval \<Rightarrow> error + 'v" where
  "read_var state (Str var) = get_by_path state (split_on CHR ''/'' var)"
| "read_var state (Num n) = Inl TypeError"
| "read_var state (Flt x) = Inl TypeError"

subsection \<open>The trajectory reducer (the first loop of \<^verbatim>\<open>render\<close>)\<close>

text \<open>
  The body of the loop at index \<open>i\<close>: the final state of episode \<open>i\<close>, the position value
  read from it and converted by \<^verbatim>\<open>np.array(...).tolist()\<close>, then the feature value read from it
  and converted by \<^verbatim>\<open>np.array(...).flatten().tolist()\<close>.
\<close>

definition episode_arrays ::
  "('v, 'a) externals \<Rightarrow> GeoPlot \<Rightarrow> 'v snapshot list list \<Rightarrow> nat \<Rightarrow>
     error + ('a nd \<times> 'a list)" where
  "episode_arrays ext self traj i =
     (case last_item (traj ! i) of Inl e \<Rightarrow> Inl e | Inr final_state \<Rightarrow>
      case read_var final_state (entity_position self) of Inl e \<Rightarrow> Inl e | Inr p \<Rightarrow>
      case np_array ext p of Inl e \<Rightarrow> Inl e | Inr c \<Rightarrow>
      case read_var final_state (entity_property self) of Inl e \<Rightarrow> Inl e | Inr q \<Rightarrow>
      case np_array ext q of Inl e \<Rightarrow> Inl e | Inr f \<Rightarrow>
      Inr (c, flatten f))"

text \<open>
  One iteration per index of \<^verbatim>\<open>range(0, len(state_trajectory) - 1)\<close>: \<^verbatim>\<open>coords\<close> is
  overwritten, the feature vector is appended to \<^verbatim>\<open>values\<close>.
\<close>

fun reduce_loop ::
  "('v, 'a) externals \<Rightarrow> GeoPlot \<Rightarrow> 'v snapshot list list \<Rightarrow> nat list \<Rightarrow>
     'a nd \<times> 'a list list \<Rightarrow> error + ('a nd \<times> 'a list list)" where
  "reduce_loop ext self traj [] acc = Inr acc"
| "reduce_loop ext self traj (i # rest) (coords, values) =
     (case episode_arrays ext self traj i of
        Inl e \<Rightarrow> Inl e
      | Inr (c, v) \<Rightarrow> reduce_loop ext self traj rest (c, values @ [v]))"

definition reduce_trajectory ::
  "('v, 'a) externals \<Rightarrow> GeoPlot \<Rightarrow> 'v snapshot list list \<Rightarrow>
     error + ('a nd \<times> 'a list list)" where
  "reduce_trajectory ext self state_trajectory =
     reduce_loop ext self state_trajectory [0..<length state_trajectory - 1] (Arr [], [])"

subsection \<open>The timestamp generator\<close>

text \<open>
  The nanoseconds of \<^verbatim>\<open>pd.Timedelta(seconds=i * self.step_time)\<close>: exact for an integer step,
  given by the externals for a float step; a step that is a string is a \<^verbatim>\<open>TypeError\<close>.
\<close>

definition delta_ns ::
  "('v, 'a) externals \<Rightarrow> optval \<Rightarrow> nat \<Rightarrow> error + int" where
  "delta_ns ext st i =
     (case st of
        Num s \<Rightarrow> Inr (Timedelta_seconds (int i * s))
      | Flt x \<Rightarrow> float_timedelta ext i x
      | Str s \<Rightarrow> Inl TypeError)"

text \<open>
  \<^verbatim>\<open>start_time + pd.Timedelta(seconds=i * self.step_time)\<close>: pandas raises when the Timedelta
  is out of range, and when the addition overflows.
\<close>

definition timestamp_at ::
  "('v, 'a) externals \<Rightarrow> optval \<Rightarrow> timestamp \<Rightarrow> nat \<Rightarrow> error + timestamp" where
  "timestamp_at ext st start_time i =
     (case delta_ns ext st i of
        Inl e \<Rightarrow> Inl e
      | Inr d \<Rightarrow>
          if \<not> in_range d then Inl OutOfBounds
          else if add_overflows start_time d then Inl OutOfBounds
          else Inr (start_time + d))"

text \<open>
  \<^verbatim>\<open>[start_time + pd.Timedelta(seconds=i * self.step_time) for i in range(n * m)]\<close>.
\<close>

definition make_timestamps ::
  "('v, 'a) externals \<Rightarrow> GeoPlot \<Rightarrow> timestamp \<Rightarrow> error + timestamp list" where
  "make_timestamps ext self start_time =
     collect (timestamp_at ext (step_time self) start_time)
       [0..<nat (num_episodes (simulation_metadata (config self)) *
                 num_steps_per_episode (simulation_metadata (config self)))]"

subsection \<open>The GeoJSON builder (the second loop of \<^verbatim>\<open>render\<close>)\<close>

record 'a Feature =
  geometry_coordinates :: "'a nd list"
  properties_id :: string
  properties_value :: 'a
  properties_time :: string

record 'a FeatureCollection =
  features :: "'a Feature list"

text \<open>
  The dict display of one Feature, its items evaluated in the order they are written:
  \<^verbatim>\<open>coord[1]\<close>, \<^verbatim>\<open>coord[0]\<close>, \<^verbatim>\<open>str(i)\<close>, \<^verbatim>\<open>value_list[i]\<close>, \<^verbatim>\<open>time.isoformat()\<close>.
\<close>

definition make_feature :: "nat \<Rightarrow> 'a nd \<Rightarrow> timestamp \<times> 'a list \<Rightarrow> error + 'a Feature" where
  "make_feature i coord p =
     (case p of (time, value_list) \<Rightarrow>
      case nd_getitem coord 1 of Inl e \<Rightarrow> Inl e | Inr lon \<Rightarrow>
      case nd_getitem coord 0 of Inl e \<Rightarrow> Inl e | Inr lat \<Rightarrow>
      case list_getitem value_list i of Inl e \<Rightarrow> Inl e | Inr v \<Rightarrow>
      Inr \<lparr>geometry_coordinates = [lon, lat], properties_id = str_int (int i),
           properties_value = v, properties_time = isoformat time\<rparr>)"

definition make_collection ::
  "timestamp list \<Rightarrow> 'a list list \<Rightarrow> nat \<times> 'a nd \<Rightarrow> error + 'a FeatureCollection" where
  "make_collection timestamps values p =
     (case p of (i, coord) \<Rightarrow>
      case collect (make_feature i coord) (zip timestamps values) of
        Inl e \<Rightarrow> Inl e
      | Inr fs \<Rightarrow> Inr \<lparr>features = fs\<rparr>)"

text \<open>
  \<^verbatim>\<open>for i, coord in enumerate(coords)\<close>: a scalar is not iterable (\<^verbatim>\<open>TypeError\<close>).
\<close>

definition build_geojsons ::
  "'a nd \<Rightarrow> timestamp list \<Rightarrow> 'a list list \<Rightarrow> error + 'a FeatureCollection list" where
  "build_geojsons coords timestamps values =
     (case coords of
        Scalar a \<Rightarrow> Inl TypeError
      | Arr cs \<Rightarrow> collect (make_collection timestamps values) (enumerate 0 cs))"

subsection \<open>JSON text\<close>

text \<open>
  The value \<^verbatim>\<open>render\<close> hands to \<^verbatim>\<open>json.dump\<close>: dicts with their keys in insertion order,
  lists, strings and the scalars of the arrays.
\<close>

datatype 'a json = JString string | JNumber 'a | JList "'a json list"
  | JDict "(string \<times> 'a json) list"

fun nd_json :: "'a nd \<Rightarrow> 'a json" where
  "nd_json (Scalar a) = JNumber a"
| "nd_json (Arr xs) = JList (map nd_json xs)"

definition feature_json :: "'a Feature \<Rightarrow> 'a json" where
  "feature_json f =
     JDict [(''type'', JString ''Feature''),
            (''geometry'', JDict [(''type'', JString ''Point''),
                                  (''coordinates'', JList (map nd_json (geometry_coordinates f)))]),
            (''properties'', JDict [(''id'', JString (properties_id f)),
                                    (''value'', JNumber (properties_value f)),
                                    (''time'', JString (properties_time f))])]"

definition collection_json :: "'a FeatureCollection \<Rightarrow> 'a json" where
  "collection_json fc =
     JDict [(''type'', JString ''FeatureCollection''),
            (''features'', JList (map feature_json (features fc)))]"

definition geojsons_json :: "'a FeatureCollection list \<Rightarrow> 'a json" where
  "geojsons_json geojsons = JList (map collection_json geojsons)"

text \<open>
  The encoder of Python's \<^verbatim>\<open>json\<close> module on such values. A string is quoted, with the
  quote, the backslash and the control characters escaped (the strings \<^verbatim>\<open>render\<close> writes are
  ASCII, where \<^verbatim>\<open>ensure_ascii\<close> makes no difference). With \<^verbatim>\<open>indent=n\<close> every item of
  a non-empty list or dict starts a new line, indented by \<open>n\<close> spaces per nesting level, and
  the separators are \<^verbatim>\<open>","\<close> and \<^verbatim>\<open>": "\<close>; without \<^verbatim>\<open>indent\<close> they are \<^verbatim>\<open>", "\<close> and
  \<^verbatim>\<open>": "\<close>. The text of a scalar is given by \<open>repr\<close> (the \<open>scalar_text\<close> of the externals).
\<close>

definition hex_digit :: "nat \<Rightarrow> char" where
  "hex_digit n = ''0123456789abcdef'' ! (n mod 16)"

definition escape_char :: "char \<Rightarrow> string" where
  "escape_char c =
     (if c = CHR 0x22 then [CHR 0x5C, CHR 0x22]
      else if c = CHR 0x5C then [CHR 0x5C, CHR 0x5C]
      else if c = CHR 0x0A then [CHR 0x5C, CHR ''n'']
      else if c = CHR 0x0D then [CHR 0x5C, CHR ''r'']
      else if c = CHR 0x09 then [CHR 0x5C, CHR ''t'']
      else if c = CHR 0x08 then [CHR 0x5C, CHR ''b'']
      else if c = CHR 0x0C then [CHR 0x5C, CHR ''f'']
      else if (of_char c :: nat) < 32
        then [CHR 0x5C, CHR ''u'', CHR ''0'', CHR ''0'',
              hex_digit (of_char c div 16), hex_digit (of_char c)]
      else [c])"

definition encode_basestring :: "string \<Rightarrow> string" where
  "encode_basestring s = CHR 0x22 # concat (map escape_char s) @ [CHR 0x22]"

fun join :: "string \<Rightarrow> string list \<Rightarrow> string" where
  "join sep [] = []"
| "join sep [x] = x"
| "join sep (x # y # ys) = x @ sep @ join sep (y # ys)"

definition newline_indent :: "nat option \<Rightarrow> nat \<Rightarrow> string" where
  "newline_indent indent level =
     (case indent of None \<Rightarrow> [] | Some n \<Rightarrow> CHR 0x0A # replicate (n * level) CHR '' '')"

definition item_separator :: "nat option \<Rightarrow> string" where
  "item_separator indent = (case indent of None \<Rightarrow> '', '' | Some n \<Rightarrow> '','')"

fun encode :: "('a \<Rightarrow> string) \<Rightarrow> nat option \<Rightarrow> nat \<Rightarrow> 'a json \<Rightarrow> string" where
  "encode repr indent level (JString s) = encode_basestring s"
| "encode repr indent level (JNumber a) = repr a"
| "encode repr indent level (JList xs) =
     (if xs = [] then ''[]''
      else ''['' @ newline_indent indent (level + 1) @
           join (item_separator indent @ newline_indent indent (level + 1))
             (map (encode repr indent (level + 1)) xs) @
           newline_indent indent level @ '']'')"
| "encode repr indent level (JDict kvs) =
     (if kvs = [] then ''{}''
      else ''{'' @ newline_indent indent (level + 1) @
           join (item_separator indent @ newline_indent indent (level + 1))
             (map (\<lambda>kv. encode_basestring (fst kv) @ '': '' @
                         encode repr indent (level + 1) (snd kv)) kvs) @
           newline_indent indent level @ ''}'')"

text \<open>\<^verbatim>\<open>json.dump(geojsons, f, ensure_ascii=False, indent=2)\<close> and \<^verbatim>\<open>json.dumps(geojsons)\<close>.\<close>

definition json_dump :: "('a \<Rightarrow> string) \<Rightarrow> 'a FeatureCollection list \<Rightarrow> string" where
  "json_dump repr geojsons = encode repr (Some 2) 0 (geojsons_json geojsons)"

definition json_dumps :: "('a \<Rightarrow> string) \<Rightarrow> 'a FeatureCollection list \<Rightarrow> string" where
  "json_dumps repr geojsons = encode repr None 0 (geojsons_json geojsons)"

subsection \<open>\<^verbatim>\<open>GeoPlot.render\<close>\<close>

text \<open>
  A file holds text. The page \<^verbatim>\<open>render\<close> writes is the constant \<^verbatim>\<open>geoplot_template\<close> with
  its placeholders substituted; the template has no placeholder but the five that \<^verbatim>\<open>render\<close>
  binds, so the substitution cannot fail, and the page is represented by the bindings
  handed to \<^verbatim>\<open>Template.substitute\<close>.
\<close>

datatype file_content = Text string | Substituted "(string \<times> optval) list"

type_synonym filesystem = "string \<rightharpoonup> file_content"

text \<open>
  The computation of \<^verbatim>\<open>render\<close> up to the first write: the reducer, the timestamps from the
  clock reading \<open>utcnow\<close>, the builder.
\<close>

definition render_geojsons ::
  "('v, 'a) externals \<Rightarrow> GeoPlot \<Rightarrow> 'v snapshot list list \<Rightarrow> timestamp \<Rightarrow>
     error + (timestamp list \<times> 'a FeatureCollection list)" where
  "render_geojsons ext self state_trajectory utcnow =
     (case reduce_trajectory ext self state_trajectory of
        Inl e \<Rightarrow> Inl e
      | Inr (coords, values) \<Rightarrow>
     (case make_timestamps ext self utcnow of
        Inl e \<Rightarrow> Inl e
      | Inr timestamps \<Rightarrow>
     (case build_geojsons coords timestamps values of
        Inl e \<Rightarrow> Inl e
      | Inr geojsons \<Rightarrow> Inr (timestamps, geojsons))))"

text \<open>
  \<^verbatim>\<open>render\<close> itself: the files before the call and the clock reading go in, the files after
  the call and the outcome come out. The GeoJSON file is opened and written first; the
  page is opened (and so emptied) before \<^verbatim>\<open>timestamps[0]\<close> is evaluated, which raises
  \<^verbatim>\<open>IndexError\<close> on an empty timestamp list.
\<close>

definition render ::
  "('v, 'a) externals \<Rightarrow> GeoPlot \<Rightarrow> 'v snapshot list list \<Rightarrow> timestamp \<Rightarrow> filesystem \<Rightarrow>
     filesystem \<times> (error + unit)" where
  "render ext self state_trajectory utcnow fs =
     (let geodata_path = name (simulation_metadata (config self)) @ ''.geojson'';
          geoplot_path = name (simulation_metadata (config self)) @ ''.html''
      in case render_geojsons ext self state_trajectory utcnow of
           Inl e \<Rightarrow> (fs, Inl e)
         | Inr (timestamps, geojsons) \<Rightarrow>
             if \<not> can_open ext geodata_path then (fs, Inl OSError)
             else
               (let fs1 = fs(geodata_path \<mapsto> Text (json_dump (scalar_text ext) geojsons))
                in if \<not> can_open ext geoplot_path then (fs1, Inl OSError)
                   else
                     (let fs2 = fs1(geoplot_path \<mapsto> Text [])
                      in if timestamps = [] then (fs2, Inl IndexError)
                         else (fs2(geoplot_path \<mapsto> Substituted
                                 [(''accessToken'', cesium_token self),
                                  (''startTime'', Str (isoformat (hd timestamps))),
                                  (''stopTime'', Str (isoformat (last timestamps))),
                                  (''data'', Str (json_dumps (scalar_text ext) geojsons)),
                                  (''visualType'', visualization_type self)]),
                               Inr ()))))"

text \<open>The content of the \<^verbatim>\<open>.geojson\<close> file after a call of \<^verbatim>\<open>render\<close>.\<close>

definition geojson_file :: "GeoPlot \<Rightarrow> filesystem \<times> (error + unit) \<Rightarrow> file_content option" where
  "geojson_file self r = fst r (name (simulation_metadata (config self)) @ ''.geojson'')"

subsection \<open>Notions used in the statements\<close>




text \<open>
  The timestamps are representable from the clock reading \<open>start\<close>: for every slot, the
  Timedelta exists (the step is a number) and is in range, and so is the instant it leads
  to.
\<close>

definition representable :: "('v, 'a) externals \<Rightarrow> GeoPlot \<Rightarrow> timestamp \<Rightarrow> bool" where
  "representable ext self start =
     list_all
       (\<lambda>i. case delta_ns ext (step_time self) i of
               Inl e \<Rightarrow> False
             | Inr d \<Rightarrow> in_range d \<and> in_range (start + d))
       [0..<nat (num_episodes (simulation_metadata (config self)) *
                 num_steps_per_episode (simulation_metadata (config self)))]"

text \<open>
  No addition of a Timedelta to the clock reading \<open>start\<close> overflows: whatever else the
  timestamp generator does, it does not depend on the clock.
\<close>

definition no_overflow :: "('v, 'a) externals \<Rightarrow> GeoPlot \<Rightarrow> timestamp \<Rightarrow> bool" where
  "no_overflow ext self start =
     list_all
       (\<lambda>i. case delta_ns ext (step_time self) i of
               Inl e \<Rightarrow> True
             | Inr d \<Rightarrow> \<not> add_overflows start d)
       [0..<nat (num_episodes (simulation_metadata (config self)) *
                 num_steps_per_episode (simulation_metadata (config self)))]"

text \<open>
  A feature array with one entry per entity: \<open>E\<close> rows, each a scalar or a list of one
  scalar (shape \<open>(E,)\<close> or \<open>(E, 1)\<close>).
\<close>

fun single_entry :: "'a nd \<Rightarrow> bool" where
  "single_entry (Scalar x) = True"
| "single_entry (Arr [Scalar x]) = True"
| "single_entry (Arr xs) = False"

definition one_per_entity :: "'a nd \<Rightarrow> nat \<Rightarrow> bool" where
  "one_per_entity a E =
     (case a of
        Scalar x \<Rightarrow> False
      | Arr rows \<Rightarrow> length rows = E \<and> list_all single_entry rows)"

text \<open>A document with the \<^verbatim>\<open>time\<close> property of every Feature blanked.\<close>

definition erase_time :: "'a FeatureCollection \<Rightarrow> 'a FeatureCollection" where
  "erase_time fc = \<lparr>features = map (\<lambda>f. f\<lparr>properties_time := []\<rparr>) (features fc)\<rparr>"

subsection \<open>The example scenario\<close>

text \<open>
  Section 8 of the specification: two entities at \<open>[[1, 2], [3, 4]]\<close>, a trajectory of three
  episodes of which the first two are read, feature values \<open>[10, 20]\<close> then \<open>[30, 40]\<close>, a
  step of 3600 seconds. The snapshots hold nested lists of Python integers. On these,
  \<^verbatim>\<open>np.array\<close> keeps the integers, and raises \<^verbatim>\<open>ValueError\<close> unless the lists nested at the
  same depth have the same shape.
\<close>

fun shape :: "'a nd \<Rightarrow> nat list option" where
  "shape (Scalar a) = Some []"
| "shape (Arr xs) =
     (case map shape xs of
        [] \<Rightarrow> Some [0]
      | s # ss \<Rightarrow>
          (case s of
             None \<Rightarrow> None
           | Some d \<Rightarrow> if list_all (\<lambda>t. t = Some d) ss then Some (length xs # d) else None))"

definition np_array_lists :: "'a nd \<Rightarrow> error + 'a nd" where
  "np_array_lists x = (case shape x of None \<Rightarrow> Inl ValueError | Some d \<Rightarrow> Inr x)"

definition example_externals :: "(int nd, int) externals" where
  "example_externals =
     \<lparr>np_array = np_array_lists, float_timedelta = (\<lambda>i x. Inl TypeError),
      scalar_text = str_int, can_open = (\<lambda>p. True)\<rparr>"

definition example_positions :: "int nd" where
  "example_positions = Arr [Arr [Scalar 1, Scalar 2], Arr [Scalar 3, Scalar 4]]"

definition example_values :: "int list list" where
  "example_values = [[10, 20], [30, 40]]"

definition example_snapshot :: "int nd \<Rightarrow> int nd snapshot" where
  "example_snapshot v =
     [[''agents'', ''consumers'', ''coordinates''] \<mapsto> example_positions,
      [''agents'', ''consumers'', ''money_spent''] \<mapsto> v]"

definition example_trajectory :: "int nd snapshot list list" where
  "example_trajectory =
     [[example_snapshot (Arr [Scalar 1, Scalar 2]), example_snapshot (Arr [Scalar 10, Scalar 20])],
      [example_snapshot (Arr [Scalar 30, Scalar 40])],
      [example_snapshot (Arr [Scalar 50, Scalar 60])]]"

definition example_options :: "string \<rightharpoonup> optval" where
  "example_options =
     [''cesium_token'' \<mapsto> Str ''token'', ''step_time'' \<mapsto> Num 3600,
      ''coordinates'' \<mapsto> Str ''agents/consumers/coordinates'',
      ''feature'' \<mapsto> Str ''agents/consumers/money_spent'',
      ''visualization_type'' \<mapsto> Str ''color'']"

definition example_config :: "int \<Rightarrow> int \<Rightarrow> config" where
  "example_config n m =
     \<lparr>simulation_metadata = \<lparr>name = ''demo'', num_episodes = n, num_steps_per_episode = m\<rparr>\<rparr>"

definition example_plot :: "int \<Rightarrow> int \<Rightarrow> GeoPlot" where
  "example_plot n m =
     \<lparr>config = example_config n m, cesium_token = Str ''token'', step_time = Num 3600,
      entity_position = Str ''agents/consumers/coordinates'',
      entity_property = Str ''agents/consumers/money_spent'',
      visualization_type = Str ''color''\<rparr>"

section \<open>Properties\<close>

subsection \<open>The text of integers and instants\<close>

lemma str_int_examples:
  "str_int 0 = ''0''" "str_int 42 = ''42''" "str_int (- 120) = ''-120''"
  by code_simp+

lemma isoformat_examples:
  "isoformat 0 = ''1970-01-01T00:00:00+00:00''"
  "isoformat 3600000000000 = ''1970-01-01T01:00:00+00:00''"
  "isoformat 1709164800000000000 = ''2024-02-29T00:00:00+00:00''"
  "isoformat 1793718720123456000 = ''2026-11-03T15:12:00.123456+00:00''"
  "isoformat (- 1) = ''1969-12-31T23:59:59.999999999+00:00''"
  by code_simp+

subsection \<open>Collecting results\<close>

lemma collect_Inr_iff:
  "collect f xs = Inr ys \<longleftrightarrow> list_all2 (\<lambda>x y. f x = Inr y) xs ys"
proof (induction xs arbitrary: ys)
  case Nil
  then show ?case by auto
next
  case (Cons x xs)
  show ?case
    by (cases ys) (auto simp: Cons.IH [symmetric] split: sum.splits)
qed

lemma collect_Inr_nth:
  "collect f xs = Inr ys \<longleftrightarrow>
     length ys = length xs \<and> (\<forall>k<length xs. f (xs ! k) = Inr (ys ! k))"
  by (auto simp: collect_Inr_iff list_all2_conv_all_nth)

lemma collect_Inl:
  "collect f xs = Inl e \<Longrightarrow> \<exists>x\<in>set xs. f x = Inl e"
  by (induction xs) (auto split: sum.splits)

lemma collect_total:
  "(\<forall>x\<in>set xs. \<exists>y. f x = Inr y) \<Longrightarrow> \<exists>ys. collect f xs = Inr ys"
  by (induction xs) (auto split: sum.splits)

lemma collect_map:
  "(\<forall>x\<in>set xs. f x = Inr (g x)) \<Longrightarrow> collect f xs = Inr (map g xs)"
  by (induction xs) auto

subsection \<open>The builder\<close>

lemma make_feature_Inr_iff:
  "make_feature i coord (t, vl) = Inr f \<longleftrightarrow>
     (\<exists>c. coord = Arr c \<and> 1 < length c \<and> i < length vl \<and>
          f = \<lparr>geometry_coordinates = [c ! 1, c ! 0], properties_id = str_int (int i),
               properties_value = vl ! i, properties_time = isoformat t\<rparr>)"
  by (cases coord) (auto simp: make_feature_def list_getitem_def split: sum.splits)

lemma make_feature_Inl:
  "make_feature i coord p = Inl e \<Longrightarrow> e = IndexError \<or> e = TypeError"
  by (cases coord; cases p) (auto simp: make_feature_def list_getitem_def split: sum.splits if_splits)

lemma make_collection_Inr_iff:
  "make_collection ts vs (i, coord) = Inr fc \<longleftrightarrow>
     collect (make_feature i coord) (zip ts vs) = Inr (features fc)"
  by (cases fc) (auto simp: make_collection_def split: sum.splits)

lemma build_geojsons_Inr_iff:
  "build_geojsons (Arr pos) ts vs = Inr geojsons \<longleftrightarrow>
     length geojsons = length pos \<and>
     (\<forall>i<length pos.
        length (features (geojsons ! i)) = min (length ts) (length vs) \<and>
        (\<forall>j<min (length ts) (length vs).
           \<exists>c. pos ! i = Arr c \<and> 1 < length c \<and> i < length (vs ! j) \<and>
               features (geojsons ! i) ! j =
                 \<lparr>geometry_coordinates = [c ! 1, c ! 0], properties_id = str_int (int i),
                  properties_value = vs ! j ! i, properties_time = isoformat (ts ! j)\<rparr>))"
  by (auto simp: build_geojsons_def collect_Inr_nth nth_enumerate_eq make_collection_Inr_iff
      make_feature_Inr_iff)


lemma make_feature_total:
  "coord = Arr c \<Longrightarrow> 1 < length c \<Longrightarrow> i < length vl \<Longrightarrow>
     \<exists>f. make_feature i coord (t, vl) = Inr f"
  by (simp add: make_feature_Inr_iff)

lemma build_geojsons_total:
  assumes pos: "\<forall>i<length pos. \<exists>c. pos ! i = Arr c \<and> 2 \<le> length c"
    and vals: "\<forall>j<min (length ts) (length vs). length pos \<le> length (vs ! j)"
  shows "\<exists>geojsons. build_geojsons (Arr pos) ts vs = Inr geojsons"
proof -
  have "\<exists>fc. make_collection ts vs p = Inr fc" if p: "p \<in> set (enumerate 0 pos)" for p
  proof -
    obtain i coord where [simp]: "p = (i, coord)" by (cases p)
    from p have i: "i < length pos" and coord: "coord = pos ! i"
      by (auto simp: in_set_enumerate_eq)
    from pos i coord obtain c where c: "coord = Arr c" "1 < length c" by fastforce
    have "\<exists>f. make_feature i coord q = Inr f" if q: "q \<in> set (zip ts vs)" for q
    proof -
      obtain t vl where [simp]: "q = (t, vl)" by (cases q)
      from q obtain j where "j < min (length ts) (length vs)" "vl = vs ! j"
        by (auto simp: in_set_zip)
      with vals i have "i < length vl" by fastforce
      with c show ?thesis by (simp add: make_feature_total)
    qed
    then obtain fs where "collect (make_feature i coord) (zip ts vs) = Inr fs"
      using collect_total [of "zip ts vs" "make_feature i coord"] by blast
    then show ?thesis by (simp add: make_collection_def)
  qed
  then show ?thesis
    using collect_total [of "enumerate 0 pos" "make_collection ts vs"]
    by (simp add: build_geojsons_def)
qed

text \<open>
  Claim C1. For every position array \<open>pos\<close>, list of feature vectors \<open>vs\<close> and list of
  timestamps \<open>ts\<close>: when the builder returns, it returns one FeatureCollection per entity
  index \<open>i\<close>, in the order of the position array, and the \<open>j\<close>-th Feature of the \<open>i\<close>-th
  collection has id \<^verbatim>\<open>str(i)\<close>, value \<open>vs[j][i]\<close>, time the ISO form of \<open>ts[j]\<close> and
  coordinates \<open>[pos[i][1], pos[i][0]]\<close>. It does return when every position has two
  entries and every paired feature vector has an entry for every entity. The builder is a
  function of its three arguments and returns a fresh value: nothing is mutated.
\<close>

theorem builder_postcondition:
  "(build_geojsons (Arr pos) ts vs = Inr geojsons \<longrightarrow>
      length geojsons = length pos \<and>
      (\<forall>i<length pos.
         length (features (geojsons ! i)) = min (length ts) (length vs) \<and>
         (\<forall>j<min (length ts) (length vs).
            \<exists>c. pos ! i = Arr c \<and> 1 < length c \<and> i < length (vs ! j) \<and>
                features (geojsons ! i) ! j =
                  \<lparr>geometry_coordinates = [c ! 1, c ! 0], properties_id = str_int (int i),
                   properties_value = vs ! j ! i,
                   properties_time = isoformat (ts ! j)\<rparr>))) \<and>
   ((\<forall>i<length pos. \<exists>c. pos ! i = Arr c \<and> 2 \<le> length c) \<and>
    (\<forall>j<min (length ts) (length vs). length pos \<le> length (vs ! j)) \<longrightarrow>
      (\<exists>geojsons. build_geojsons (Arr pos) ts vs = Inr geojsons))"
  using build_geojsons_Inr_iff [of pos ts vs geojsons] build_geojsons_total [of pos ts vs]
  by blast

theorem builder_postcondition_witness:
  "build_geojsons example_positions [0, 3600000000000] example_values =
     Inr [\<lparr>features =
            [\<lparr>geometry_coordinates = [Scalar 2, Scalar 1], properties_id = ''0'',
              properties_value = 10, properties_time = ''1970-01-01T00:00:00+00:00''\<rparr>,
             \<lparr>geometry_coordinates = [Scalar 2, Scalar 1], properties_id = ''0'',
              properties_value = 30, properties_time = ''1970-01-01T01:00:00+00:00''\<rparr>]\<rparr>,
          \<lparr>features =
            [\<lparr>geometry_coordinates = [Scalar 4, Scalar 3], properties_id = ''1'',
              properties_value = 20, properties_time = ''1970-01-01T00:00:00+00:00''\<rparr>,
             \<lparr>geometry_coordinates = [Scalar 4, Scalar 3], properties_id = ''1'',
              properties_value = 40, properties_time = ''1970-01-01T01:00:00+00:00''\<rparr>]\<rparr>] \<and>
   (\<exists>geojsons. build_geojsons example_positions [0, 3600000000000] example_values =
      Inr geojsons \<and> length geojsons = 2 \<and> length (features (geojsons ! 1)) = 2)"
proof -
  let ?pos = "[Arr [Scalar 1, Scalar 2], Arr [Scalar 3, Scalar (4::int)]]"
  let ?ts = "[0, 3600000000000 :: int]"
  have ex: "example_positions = Arr ?pos"
    by (simp add: example_positions_def)
  have run: "build_geojsons example_positions ?ts example_values =
     Inr [\<lparr>features =
            [\<lparr>geometry_coordinates = [Scalar 2, Scalar 1], properties_id = ''0'',
              properties_value = 10, properties_time = ''1970-01-01T00:00:00+00:00''\<rparr>,
             \<lparr>geometry_coordinates = [Scalar 2, Scalar 1], properties_id = ''0'',
              properties_value = 30, properties_time = ''1970-01-01T01:00:00+00:00''\<rparr>]\<rparr>,
          \<lparr>features =
            [\<lparr>geometry_coordinates = [Scalar 4, Scalar 3], properties_id = ''1'',
              properties_value = 20, properties_time = ''1970-01-01T00:00:00+00:00''\<rparr>,
             \<lparr>geometry_coordinates = [Scalar 4, Scalar 3], properties_id = ''1'',
              properties_value = 40, properties_time = ''1970-01-01T01:00:00+00:00''\<rparr>]\<rparr>]"
    by code_simp
  have shape: "(\<forall>i<length ?pos. \<exists>c. ?pos ! i = Arr c \<and> 2 \<le> length c) \<and>
    (\<forall>j<min (length ?ts) (length example_values). length ?pos \<le> length (example_values ! j))"
    by (simp add: example_values_def less_Suc_eq all_conj_distrib)
  from builder_postcondition [of ?pos ?ts example_values] shape
  obtain g where g: "build_geojsons (Arr ?pos) ?ts example_values = Inr g" by blast
  with builder_postcondition [of ?pos ?ts example_values g]
  have "length g = 2 \<and> length (features (g ! 1)) = 2"
    by (simp add: example_values_def)
  with g run ex show ?thesis by simp
qed

text \<open>
  Claim C6. For every entity whose stored position is \<open>(lat, lon)\<close>, every Feature the
  builder emits for it has coordinates \<open>[lon, lat]\<close>; position \<open>(10, 20)\<close> yields
  \<open>[20, 10]\<close>.
\<close>

theorem coordinates_lon_lat:
  assumes "build_geojsons (Arr pos) ts vs = Inr geojsons"
    and "i < length pos" and "pos ! i = Arr [lat, lon]"
    and "f \<in> set (features (geojsons ! i))"
  shows "geometry_coordinates f = [lon, lat]"
proof -
  from assms(4) obtain j where j: "j < length (features (geojsons ! i))"
    and f: "features (geojsons ! i) ! j = f"
    by (auto simp: in_set_conv_nth)
  from assms(1,2) j have "j < min (length ts) (length vs)"
    by (simp add: build_geojsons_Inr_iff)
  with assms(1,2,3) f show ?thesis
    by (auto simp: build_geojsons_Inr_iff)
qed

theorem coordinates_lon_lat_witness:
  "build_geojsons (Arr [Arr [Scalar 10, Scalar 20]]) [0] [[7 :: int]] =
     Inr [\<lparr>features =
            [\<lparr>geometry_coordinates = [Scalar 20, Scalar 10], properties_id = ''0'',
              properties_value = 7, properties_time = ''1970-01-01T00:00:00+00:00''\<rparr>]\<rparr>] \<and>
   geometry_coordinates
     \<lparr>geometry_coordinates = [Scalar 20, Scalar 10], properties_id = ''0'',
      properties_value = 7 :: int, properties_time = ''1970-01-01T00:00:00+00:00''\<rparr> =
     [Scalar 20, Scalar 10]"
proof -
  let ?f = "\<lparr>geometry_coordinates = [Scalar 20, Scalar 10], properties_id = ''0'',
      properties_value = 7 :: int, properties_time = ''1970-01-01T00:00:00+00:00''\<rparr>"
  have run: "build_geojsons (Arr [Arr [Scalar 10, Scalar 20]]) [0] [[7 :: int]] =
     Inr [\<lparr>features = [?f]\<rparr>]"
    by code_simp
  have "geometry_coordinates ?f = [Scalar 20, Scalar 10]"
    by (rule coordinates_lon_lat [OF run, of 0 "Scalar 10" "Scalar 20"]) simp_all
  with run show ?thesis by simp
qed

text \<open>
  Claim C8, as amended. The builder indexes a feature vector only when it is paired with a
  timestamp. For every input where some feature vector that is paired with a timestamp
  (its index is below the number of timestamps) has fewer entries than the position array
  has entities, the builder raises an error: \<^verbatim>\<open>IndexError\<close>, or \<^verbatim>\<open>TypeError\<close> when it meets a
  position that is a scalar first.
\<close>

theorem paired_short_vector_fails:
  assumes j: "j < length ts" "j < length vs"
    and short: "length (vs ! j) < length pos"
  shows "build_geojsons (Arr pos) ts vs = Inl IndexError \<or>
         build_geojsons (Arr pos) ts vs = Inl TypeError"
proof (cases "build_geojsons (Arr pos) ts vs")
  case (Inr geojsons)
  from j have "j < min (length ts) (length vs)" by simp
  with Inr short have "length (vs ! j) < length (vs ! j)"
    by (auto simp: build_geojsons_Inr_iff)
  then show ?thesis by simp
next
  case (Inl e)
  then obtain p where "make_collection ts vs p = Inl e"
    by (auto simp: build_geojsons_def dest: collect_Inl)
  then obtain q where "make_feature (fst p) (snd p) q = Inl e"
    by (cases p) (auto simp: make_collection_def split: sum.splits dest: collect_Inl)
  then have "e = IndexError \<or> e = TypeError"
    by (rule make_feature_Inl)
  with Inl show ?thesis by auto
qed

theorem paired_short_vector_fails_witness:
  "(1 :: nat) < length [0, 3600000000000 :: int] \<and> 1 < length [[10, 20], [30 :: int]] \<and>
   length ([[10, 20], [30 :: int]] ! 1) < length [Arr [Scalar 1, Scalar 2], Arr [Scalar 3, Scalar (4 :: int)]] \<and>
   build_geojsons (Arr [Arr [Scalar 1, Scalar 2], Arr [Scalar 3, Scalar 4]])
     [0, 3600000000000] [[10, 20], [30 :: int]] = Inl IndexError"
proof -
  have run: "build_geojsons (Arr [Arr [Scalar 1, Scalar 2], Arr [Scalar 3, Scalar 4]])
     [0, 3600000000000] [[10, 20], [30 :: int]] \<noteq> Inl TypeError"
    by code_simp
  have "(1 :: nat) < length [0, 3600000000000 :: int]" "(1 :: nat) < length [[10, 20], [30 :: int]]"
    "length ([[10, 20], [30 :: int]] ! 1) < length [Arr [Scalar 1, Scalar 2], Arr [Scalar 3, Scalar (4 :: int)]]"
    by simp_all
  from paired_short_vector_fails [OF this] run show ?thesis by simp
qed

text \<open>
  Claim C8 as stated fails. With one timestamp and two feature vectors, the second vector is
  never paired: it has one entry for two entities, and the builder returns a document.
\<close>

theorem unpaired_short_vector_counterexample:
  "length ([[10, 20], [30 :: int]] ! 1) < length [Arr [Scalar 1, Scalar 2], Arr [Scalar 3, Scalar (4 :: int)]] \<and>
   build_geojsons (Arr [Arr [Scalar 1, Scalar 2], Arr [Scalar 3, Scalar 4]])
     [0] [[10, 20], [30 :: int]] =
     Inr [\<lparr>features =
            [\<lparr>geometry_coordinates = [Scalar 2, Scalar 1], properties_id = ''0'',
              properties_value = 10, properties_time = ''1970-01-01T00:00:00+00:00''\<rparr>]\<rparr>,
          \<lparr>features =
            [\<lparr>geometry_coordinates = [Scalar 4, Scalar 3], properties_id = ''1'',
              properties_value = 20, properties_time = ''1970-01-01T00:00:00+00:00''\<rparr>]\<rparr>]"
proof -
  have "build_geojsons (Arr [Arr [Scalar 1, Scalar 2], Arr [Scalar 3, Scalar 4]])
     [0] [[10, 20], [30 :: int]] =
     Inr [\<lparr>features =
            [\<lparr>geometry_coordinates = [Scalar 2, Scalar 1], properties_id = ''0'',
              properties_value = 10, properties_time = ''1970-01-01T00:00:00+00:00''\<rparr>]\<rparr>,
          \<lparr>features =
            [\<lparr>geometry_coordinates = [Scalar 4, Scalar 3], properties_id = ''1'',
              properties_value = 20, properties_time = ''1970-01-01T00:00:00+00:00''\<rparr>]\<rparr>]"
    by code_simp
  then show ?thesis by simp
qed


subsection \<open>The reducer\<close>

lemma episode_arrays_Inr_iff:
  "episode_arrays ext self traj i = Inr (c, v) \<longleftrightarrow>
     traj ! i \<noteq> [] \<and>
     (\<exists>p. read_var (last (traj ! i)) (entity_position self) = Inr p \<and> np_array ext p = Inr c) \<and>
     (\<exists>q f. read_var (last (traj ! i)) (entity_property self) = Inr q \<and>
            np_array ext q = Inr f \<and> v = flatten f)"
  by (auto simp: episode_arrays_def last_item_def split: sum.splits)

lemma reduce_loop_collect:
  "reduce_loop ext self traj idxs (c0, v0) =
     (case collect (episode_arrays ext self traj) idxs of
        Inl e \<Rightarrow> Inl e
      | Inr ys \<Rightarrow> Inr (if ys = [] then c0 else fst (last ys), v0 @ map snd ys))"
proof (induction idxs arbitrary: c0 v0)
  case Nil
  show ?case by simp
next
  case (Cons i rest)
  show ?case
    by (cases "episode_arrays ext self traj i") (auto simp: Cons.IH split: sum.splits)
qed

lemma reduce_trajectory_Inr_iff:
  "reduce_trajectory ext self traj = Inr (coords, vs) \<longleftrightarrow>
     (\<exists>ys. collect (episode_arrays ext self traj) [0..<length traj - 1] = Inr ys \<and>
           coords = (if ys = [] then Arr [] else fst (last ys)) \<and> vs = map snd ys)"
  by (auto simp: reduce_trajectory_def reduce_loop_collect split: sum.splits)

lemma single_entry_flatten:
  "single_entry r \<Longrightarrow> length (flatten r) = 1"
  by (induction r rule: single_entry.induct) auto

lemma one_per_entity_rows:
  "list_all single_entry rows \<Longrightarrow> length (concat (map flatten rows)) = length rows"
  by (induction rows) (auto simp: single_entry_flatten)

lemma one_per_entity_flatten:
  "one_per_entity a E \<Longrightarrow> length (flatten a) = E"
  by (cases a) (auto simp: one_per_entity_def one_per_entity_rows)

text \<open>
  Claim C3, as amended. For every trajectory with at least two episodes on which the reducer
  returns: the list of feature vectors has length \<open>num_episodes - 1\<close>; for each episode \<open>k\<close>
  but the last, the \<open>k\<close>-th vector is the flattened array that numpy makes of the feature
  value read from the final step of episode \<open>k\<close>, that is every scalar of the array in
  row-major order, which is one scalar per entity when the array has one entry per entity;
  the position array is the one numpy makes of the position value read from the final step
  of episode \<open>num_episodes - 2\<close>. The reducer returns whenever each of these episodes has a
  final step that holds both values and numpy converts both.
\<close>

theorem reducer_behaviour:
  "(2 \<le> length traj \<and> reduce_trajectory ext self traj = Inr (coords, vs) \<longrightarrow>
      length vs = length traj - 1 \<and>
      (\<forall>k<length traj - 1.
         traj ! k \<noteq> [] \<and>
         (\<exists>q f. read_var (last (traj ! k)) (entity_property self) = Inr q \<and>
                np_array ext q = Inr f \<and> vs ! k = flatten f \<and>
                (\<forall>E. one_per_entity f E \<longrightarrow> length (vs ! k) = E))) \<and>
      (\<exists>p. read_var (last (traj ! (length traj - 2))) (entity_position self) = Inr p \<and>
           np_array ext p = Inr coords)) \<and>
   ((\<forall>k<length traj - 1.
       traj ! k \<noteq> [] \<and>
       (\<exists>p c. read_var (last (traj ! k)) (entity_position self) = Inr p \<and>
              np_array ext p = Inr c) \<and>
       (\<exists>q f. read_var (last (traj ! k)) (entity_property self) = Inr q \<and>
              np_array ext q = Inr f)) \<longrightarrow>
      (\<exists>coords vs. reduce_trajectory ext self traj = Inr (coords, vs)))"
proof (intro conjI impI)
  assume a: "2 \<le> length traj \<and> reduce_trajectory ext self traj = Inr (coords, vs)"
  then obtain ys where ys: "collect (episode_arrays ext self traj) [0..<length traj - 1] = Inr ys"
    and coords: "coords = (if ys = [] then Arr [] else fst (last ys))"
    and vs: "vs = map snd ys"
    by (auto simp: reduce_trajectory_Inr_iff)
  from ys have len: "length ys = length traj - 1"
    and nth: "\<And>k. k < length traj - 1 \<Longrightarrow> episode_arrays ext self traj k = Inr (ys ! k)"
    by (auto simp: collect_Inr_nth)
  from len vs show "length vs = length traj - 1" by simp
  show "\<forall>k<length traj - 1.
         traj ! k \<noteq> [] \<and>
         (\<exists>q f. read_var (last (traj ! k)) (entity_property self) = Inr q \<and>
                np_array ext q = Inr f \<and> vs ! k = flatten f \<and>
                (\<forall>E. one_per_entity f E \<longrightarrow> length (vs ! k) = E))"
  proof (intro allI impI)
    fix k assume k: "k < length traj - 1"
    obtain c v where cv: "ys ! k = (c, v)" by (cases "ys ! k")
    with nth [OF k] have "episode_arrays ext self traj k = Inr (c, v)"
      by simp
    then obtain q f where ne: "traj ! k \<noteq> []"
      and q: "read_var (last (traj ! k)) (entity_property self) = Inr q"
      and f: "np_array ext q = Inr f" and v: "v = flatten f"
      by (auto simp: episode_arrays_Inr_iff)
    from k len vs cv v have "vs ! k = flatten f" by simp
    with ne q f show "traj ! k \<noteq> [] \<and>
         (\<exists>q f. read_var (last (traj ! k)) (entity_property self) = Inr q \<and>
                np_array ext q = Inr f \<and> vs ! k = flatten f \<and>
                (\<forall>E. one_per_entity f E \<longrightarrow> length (vs ! k) = E))"
      by (auto simp: one_per_entity_flatten)
  qed
  from a len have ne: "ys \<noteq> []" by (cases ys) auto
  from a len have "length ys - 1 = length traj - 2" by arith
  with ne have l: "last ys = ys ! (length traj - 2)"
    by (simp add: last_conv_nth)
  from a have "length traj - 2 < length traj - 1" by arith
  from nth [OF this] l have "episode_arrays ext self traj (length traj - 2) = Inr (last ys)"
    by simp
  moreover obtain c v where cv: "last ys = (c, v)" by (cases "last ys")
  ultimately have "episode_arrays ext self traj (length traj - 2) = Inr (c, v)"
    by simp
  with coords ne cv
  show "\<exists>p. read_var (last (traj ! (length traj - 2))) (entity_position self) = Inr p \<and>
           np_array ext p = Inr coords"
    by (auto simp: episode_arrays_Inr_iff)
next
  assume r: "\<forall>k<length traj - 1.
       traj ! k \<noteq> [] \<and>
       (\<exists>p c. read_var (last (traj ! k)) (entity_position self) = Inr p \<and>
              np_array ext p = Inr c) \<and>
       (\<exists>q f. read_var (last (traj ! k)) (entity_property self) = Inr q \<and>
              np_array ext q = Inr f)"
  have "\<forall>k\<in>set [0..<length traj - 1]. \<exists>y. episode_arrays ext self traj k = Inr y"
  proof
    fix k assume "k \<in> set [0..<length traj - 1]"
    then have "k < length traj - 1" by simp
    with r obtain p c q f where "traj ! k \<noteq> []"
      "read_var (last (traj ! k)) (entity_position self) = Inr p" "np_array ext p = Inr c"
      "read_var (last (traj ! k)) (entity_property self) = Inr q" "np_array ext q = Inr f"
      by blast
    then have "episode_arrays ext self traj k = Inr (c, flatten f)"
      by (auto simp: episode_arrays_Inr_iff)
    then show "\<exists>y. episode_arrays ext self traj k = Inr y" ..
  qed
  then obtain ys where "collect (episode_arrays ext self traj) [0..<length traj - 1] = Inr ys"
    using collect_total by blast
  then show "\<exists>coords vs. reduce_trajectory ext self traj = Inr (coords, vs)"
    by (simp add: reduce_trajectory_Inr_iff)
qed

theorem reducer_behaviour_witness:
  "2 \<le> length example_trajectory \<and>
   reduce_trajectory example_externals (example_plot 3 1) example_trajectory =
     Inr (example_positions, example_values) \<and>
   length example_values = length example_trajectory - 1 \<and>
   one_per_entity (Arr [Scalar 10, Scalar (20 :: int)]) 2 \<and>
   (\<exists>p. read_var (last (example_trajectory ! (length example_trajectory - 2)))
          (entity_position (example_plot 3 1)) = Inr p \<and>
        np_array example_externals p = Inr example_positions) \<and>
   (\<exists>q f. read_var (last (example_trajectory ! 0)) (entity_property (example_plot 3 1)) = Inr q \<and>
          np_array example_externals q = Inr f \<and> example_values ! 0 = flatten f)"
proof -
  have two: "2 \<le> length example_trajectory"
    by (simp add: example_trajectory_def)
  have run: "reduce_trajectory example_externals (example_plot 3 1) example_trajectory =
     Inr (example_positions, example_values)"
    by code_simp
  have one: "one_per_entity (Arr [Scalar 10, Scalar (20 :: int)]) 2"
    by (simp add: one_per_entity_def)
  have zero: "0 < length example_trajectory - 1"
    by (simp add: example_trajectory_def)
  from reducer_behaviour [of example_trajectory example_externals "example_plot 3 1"
      example_positions example_values] two run zero one
  show ?thesis by blast
qed

text \<open>
  Claim C3 as stated fails. With two entities and a feature array of two rows of two
  entries, the feature vector appended for the first episode has four scalars, not one per
  entity.
\<close>

theorem wide_feature_array_counterexample:
  "reduce_trajectory example_externals (example_plot 3 1)
     [[example_snapshot (Arr [Arr [Scalar 10, Scalar 11], Arr [Scalar 20, Scalar 21]])],
      [example_snapshot (Arr [Arr [Scalar 30, Scalar 31], Arr [Scalar 40, Scalar 41]])]] =
     Inr (Arr [Arr [Scalar 1, Scalar 2], Arr [Scalar 3, Scalar 4]], [[10, 11, 20, 21]])"
  by code_simp

subsection \<open>The timestamps\<close>

lemma timestamp_at_Num:
  "in_range (Timedelta_seconds (int i * s)) \<Longrightarrow>
   in_range (start + Timedelta_seconds (int i * s)) \<Longrightarrow>
     timestamp_at ext (Num s) start i = Inr (start + Timedelta_seconds (int i * s))"
  by (simp add: timestamp_at_def delta_ns_def add_overflows_def)

lemma timestamp_at_zero:
  "timestamp_at ext (Num 0) start i = Inr start"
  by (simp add: timestamp_at_def delta_ns_def add_overflows_def Timedelta_seconds_def
      in_range_def)

lemma make_timestamps_Num:
  assumes "step_time self = Num s"
    and "\<forall>i<nat (num_episodes (simulation_metadata (config self)) *
                  num_steps_per_episode (simulation_metadata (config self))).
           in_range (Timedelta_seconds (int i * s)) \<and>
           in_range (start + Timedelta_seconds (int i * s))"
  shows "make_timestamps ext self start =
     Inr (map (\<lambda>i. start + Timedelta_seconds (int i * s))
            [0..<nat (num_episodes (simulation_metadata (config self)) *
                      num_steps_per_episode (simulation_metadata (config self)))])"
  using assms by (simp add: make_timestamps_def collect_map timestamp_at_Num)

lemma make_timestamps_length:
  "make_timestamps ext self start = Inr ts \<Longrightarrow>
     length ts = nat (num_episodes (simulation_metadata (config self)) *
                      num_steps_per_episode (simulation_metadata (config self)))"
  by (simp add: make_timestamps_def collect_Inr_nth)

lemma representable_timestamps:
  assumes "representable ext self start"
  shows "\<exists>ts. make_timestamps ext self start = Inr ts"
proof -
  have "\<exists>t. timestamp_at ext (step_time self) start i = Inr t"
    if "i \<in> set [0..<nat (num_episodes (simulation_metadata (config self)) *
                       num_steps_per_episode (simulation_metadata (config self)))]" for i
    using assms that
    by (auto simp: representable_def list_all_iff timestamp_at_def add_overflows_def
        split: sum.splits)
  then show ?thesis
    unfolding make_timestamps_def by (intro collect_total) blast
qed

text \<open>
  Claim C4, as amended. For every start instant, every positive step interval \<open>S\<close> that is a
  whole number of seconds, and configured counts \<open>num_episodes\<close> and \<open>num_steps_per_episode\<close>
  (their product is not negative) such that every Timedelta \<open>i * S\<close> and every instant
  \<open>start + i * S\<close>, for \<open>i\<close> below the product, is within the range of pandas: the generator
  returns exactly \<open>num_episodes * num_steps_per_episode\<close> timestamps; the first one, when
  there is one, is the start instant; every timestamp but the last is followed by the one
  \<open>S\<close> seconds later; the sequence is strictly increasing.
\<close>

theorem timestamps_spaced:
  assumes step: "step_time self = Num S" and pos: "0 < S"
    and count: "0 \<le> num_episodes (simulation_metadata (config self)) *
                     num_steps_per_episode (simulation_metadata (config self))"
    and fits: "\<forall>i<nat (num_episodes (simulation_metadata (config self)) *
                        num_steps_per_episode (simulation_metadata (config self))).
           in_range (Timedelta_seconds (int i * S)) \<and>
           in_range (start + Timedelta_seconds (int i * S))"
  shows "\<exists>ts. make_timestamps ext self start = Inr ts \<and>
     int (length ts) = num_episodes (simulation_metadata (config self)) *
                       num_steps_per_episode (simulation_metadata (config self)) \<and>
     (ts \<noteq> [] \<longrightarrow> ts ! 0 = start) \<and>
     (\<forall>i. Suc i < length ts \<longrightarrow>
        ts ! Suc i - ts ! i = Timedelta_seconds S \<and> ts ! i < ts ! Suc i) \<and>
     sorted_wrt (<) ts"
proof -
  let ?n = "nat (num_episodes (simulation_metadata (config self)) *
                 num_steps_per_episode (simulation_metadata (config self)))"
  let ?ts = "map (\<lambda>i. start + Timedelta_seconds (int i * S)) [0..<?n]"
  have run: "make_timestamps ext self start = Inr ?ts"
    using step fits by (rule make_timestamps_Num)
  have len: "int (length ?ts) = num_episodes (simulation_metadata (config self)) *
                       num_steps_per_episode (simulation_metadata (config self))"
    using count by simp
  have first: "?ts \<noteq> [] \<longrightarrow> ?ts ! 0 = start"
    by (simp add: Timedelta_seconds_def)
  have step': "\<forall>i. Suc i < length ?ts \<longrightarrow>
        ?ts ! Suc i - ?ts ! i = Timedelta_seconds S \<and> ?ts ! i < ?ts ! Suc i"
    using pos by (simp add: Timedelta_seconds_def algebra_simps)
  have incr: "sorted_wrt (<) ?ts"
    using pos by (simp add: sorted_wrt_iff_nth_less Timedelta_seconds_def)
  from run len first step' incr show ?thesis by blast
qed

theorem timestamps_spaced_witness:
  "step_time (example_plot 3 1) = Num 3600 \<and> (0 :: int) < 3600 \<and>
   representable example_externals (example_plot 3 1) 1000 \<and>
   make_timestamps example_externals (example_plot 3 1) 1000 =
     Inr [1000, 3600000001000, 7200000001000] \<and>
   (\<exists>ts. make_timestamps example_externals (example_plot 3 1) 1000 = Inr ts \<and>
      int (length ts) = 3 \<and> ts ! 0 = 1000 \<and>
      ts ! Suc 0 - ts ! 0 = Timedelta_seconds 3600)"
proof -
  have step: "step_time (example_plot 3 1) = Num 3600"
    by (simp add: example_plot_def)
  have count: "num_episodes (simulation_metadata (config (example_plot 3 1))) *
     num_steps_per_episode (simulation_metadata (config (example_plot 3 1))) = 3"
    by (simp add: example_plot_def example_config_def)
  have fits: "\<forall>i<nat 3. in_range (Timedelta_seconds (int i * 3600)) \<and>
           in_range (1000 + Timedelta_seconds (int i * 3600))"
    by (simp add: in_range_def Timedelta_seconds_def numeral_3_eq_3 less_Suc_eq)
  have rep: "representable example_externals (example_plot 3 1) 1000"
    by code_simp
  have run: "make_timestamps example_externals (example_plot 3 1) 1000 =
     Inr [1000, 3600000001000, 7200000001000]"
    by code_simp
  from timestamps_spaced [OF step, of 1000 example_externals] count fits
  obtain ts where ts: "make_timestamps example_externals (example_plot 3 1) 1000 = Inr ts"
    "int (length ts) = 3" "ts \<noteq> [] \<longrightarrow> ts ! 0 = 1000"
    "\<forall>i. Suc i < length ts \<longrightarrow>
        ts ! Suc i - ts ! i = Timedelta_seconds 3600 \<and> ts ! i < ts ! Suc i"
    by auto
  from ts(2) have "ts \<noteq> []" "Suc 0 < length ts" by auto
  with ts have "make_timestamps example_externals (example_plot 3 1) 1000 = Inr ts \<and>
      int (length ts) = 3 \<and> ts ! 0 = 1000 \<and> ts ! Suc 0 - ts ! 0 = Timedelta_seconds 3600"
    by blast
  moreover have "(0 :: int) < 3600" by simp
  ultimately show ?thesis using step run rep by blast
qed

text \<open>
  Claim C4 as stated fails. With a step of \<open>10^13\<close> seconds and two timestamp slots, the
  second Timedelta is beyond the range of pandas: the generator raises, from the start
  instant \<open>0\<close>, and returns no sequence.
\<close>

theorem timestamps_out_of_range_counterexample:
  "make_timestamps example_externals
     ((example_plot 2 1)\<lparr>step_time := Num 10000000000000\<rparr>) 0 = Inl OutOfBounds"
  by code_simp


subsection \<open>The constructor\<close>

text \<open>
  Claim C9. For every options mapping that lacks at least one of the five required keys,
  the constructor raises: it returns no object, so no \<^verbatim>\<open>render\<close> call can follow. The
  exception is the \<^verbatim>\<open>KeyError\<close> of a required key that is missing.
\<close>

theorem missing_option_fails:
  assumes "k \<in> set required_keys" and "options k = None"
  shows "\<exists>k'\<in>set required_keys. options k' = None \<and> init cfg options = Inl (KeyError k')"
  using assms
  by (auto simp: init_def dict_getitem_def required_keys_def split: option.splits)

theorem missing_option_fails_witness:
  "''feature'' \<in> set required_keys \<and> (example_options(''feature'' := None)) ''feature'' = None \<and>
   init (example_config 3 1) (example_options(''feature'' := None)) = Inl (KeyError ''feature'') \<and>
   (\<exists>k'\<in>set required_keys. (example_options(''feature'' := None)) k' = None \<and>
      init (example_config 3 1) (example_options(''feature'' := None)) = Inl (KeyError k'))"
proof -
  have k: "''feature'' \<in> set required_keys"
    by (simp add: required_keys_def)
  have none: "(example_options(''feature'' := None)) ''feature'' = None"
    by simp
  have run: "init (example_config 3 1) (example_options(''feature'' := None)) =
     Inl (KeyError ''feature'')"
    by (simp add: init_def dict_getitem_def example_options_def)
  have "\<exists>k'\<in>set required_keys. (example_options(''feature'' := None)) k' = None \<and>
      init (example_config 3 1) (example_options(''feature'' := None)) = Inl (KeyError k')"
    using k none by (rule missing_option_fails)
  with k none run show ?thesis
    by (intro conjI)
qed

text \<open>
  Claim C10. For every options mapping that binds all five required keys, the constructor
  succeeds and stores the values as they are, whatever they are: a step of \<open>0\<close> or \<open>- 5\<close>
  and a visualization type \<^verbatim>\<open>shape\<close> are accepted. With a step of \<open>0\<close> every generated
  timestamp is the start instant: the sequence is constant.
\<close>

theorem no_value_validation:
  "((\<forall>k\<in>set required_keys. options k \<noteq> None) \<longrightarrow>
      (\<exists>self. init cfg options = Inr self \<and> config self = cfg \<and>
         options ''cesium_token'' = Some (cesium_token self) \<and>
         options ''step_time'' = Some (step_time self) \<and>
         options ''coordinates'' = Some (entity_position self) \<and>
         options ''feature'' = Some (entity_property self) \<and>
         options ''visualization_type'' = Some (visualization_type self))) \<and>
   (init cfg options = Inr self' \<and> options ''step_time'' = Some (Num 0) \<longrightarrow>
      make_timestamps ext self' start =
        Inr (replicate (nat (num_episodes (simulation_metadata cfg) *
                             num_steps_per_episode (simulation_metadata cfg))) start))"
proof (intro conjI impI)
  assume "\<forall>k\<in>set required_keys. options k \<noteq> None"
  then show "\<exists>self. init cfg options = Inr self \<and> config self = cfg \<and>
         options ''cesium_token'' = Some (cesium_token self) \<and>
         options ''step_time'' = Some (step_time self) \<and>
         options ''coordinates'' = Some (entity_position self) \<and>
         options ''feature'' = Some (entity_property self) \<and>
         options ''visualization_type'' = Some (visualization_type self)"
    by (auto simp: init_def dict_getitem_def required_keys_def)
next
  assume a: "init cfg options = Inr self' \<and> options ''step_time'' = Some (Num 0)"
  then have "step_time self' = Num 0" and "config self' = cfg"
    by (auto simp: init_def dict_getitem_def split: option.splits)
  then show "make_timestamps ext self' start =
        Inr (replicate (nat (num_episodes (simulation_metadata cfg) *
                             num_steps_per_episode (simulation_metadata cfg))) start)"
    by (simp add: make_timestamps_def collect_map [where g = "\<lambda>i. start"] timestamp_at_zero
        map_replicate_const)
qed

theorem no_value_validation_witness:
  "init (example_config 3 1)
     (example_options(''step_time'' \<mapsto> Num 0, ''visualization_type'' \<mapsto> Str ''shape'')) =
     Inr ((example_plot 3 1)\<lparr>step_time := Num 0, visualization_type := Str ''shape''\<rparr>) \<and>
   init (example_config 3 1) (example_options(''step_time'' \<mapsto> Num (- 5))) =
     Inr ((example_plot 3 1)\<lparr>step_time := Num (- 5)\<rparr>) \<and>
   make_timestamps example_externals
     ((example_plot 3 1)\<lparr>step_time := Num 0, visualization_type := Str ''shape''\<rparr>) 1000 =
     Inr [1000, 1000, 1000]"
proof -
  let ?opts = "example_options(''step_time'' \<mapsto> Num 0, ''visualization_type'' \<mapsto> Str ''shape'')"
  let ?plot = "(example_plot 3 1)\<lparr>step_time := Num 0, visualization_type := Str ''shape''\<rparr>"
  have keys: "\<forall>k\<in>set required_keys. ?opts k \<noteq> None"
    by (simp add: required_keys_def example_options_def)
  have run: "init (example_config 3 1) ?opts = Inr ?plot"
    by (simp add: init_def dict_getitem_def example_options_def example_plot_def)
  have zero: "?opts ''step_time'' = Some (Num 0)"
    by simp
  have neg: "init (example_config 3 1) (example_options(''step_time'' \<mapsto> Num (- 5))) =
     Inr ((example_plot 3 1)\<lparr>step_time := Num (- 5)\<rparr>)"
    by (simp add: init_def dict_getitem_def example_options_def example_plot_def)
  from no_value_validation [of ?opts "example_config 3 1" ?plot example_externals 1000] run zero
  have "make_timestamps example_externals ?plot 1000 =
        Inr (replicate (nat (num_episodes (simulation_metadata (example_config 3 1)) *
               num_steps_per_episode (simulation_metadata (example_config 3 1)))) 1000)"
    by blast
  then have "make_timestamps example_externals ?plot 1000 = Inr [1000, 1000, 1000]"
    by (simp add: example_config_def numeral_3_eq_3)
  with run neg show ?thesis by blast
qed

subsection \<open>The whole of \<^verbatim>\<open>render\<close>\<close>



lemma reduce_trajectory_short:
  "length traj \<le> 1 \<Longrightarrow> reduce_trajectory ext self traj = Inr (Arr [], [])"
  by (simp add: reduce_trajectory_def)



lemma render_geojson_file:
  "render_geojsons ext self traj now = Inr (ts, g) \<Longrightarrow>
     geojson_file self (render ext self traj now fs) =
       (if can_open ext (name (simulation_metadata (config self)) @ ''.geojson'')
        then Some (Text (json_dump (scalar_text ext) g))
        else fs (name (simulation_metadata (config self)) @ ''.geojson''))"
  by (simp add: render_def geojson_file_def Let_def)

lemma render_outcome:
  "snd (render ext self traj now fs) =
     (case render_geojsons ext self traj now of
        Inl e \<Rightarrow> Inl e
      | Inr (ts, g) \<Rightarrow>
          if \<not> can_open ext (name (simulation_metadata (config self)) @ ''.geojson'')
            then Inl OSError
          else if \<not> can_open ext (name (simulation_metadata (config self)) @ ''.html'')
            then Inl OSError
          else if ts = [] then Inl IndexError else Inr ())"
  by (simp add: render_def Let_def split: sum.splits prod.splits)




text \<open>
  Claim C7, as amended. For every trajectory of no or one episode, rendered with a positive
  \<open>num_episodes * num_steps_per_episode\<close>, a step for which the timestamps are representable
  (a number; every Timedelta and every instant within the range of pandas) and output files
  that can be opened for writing, \<^verbatim>\<open>render\<close> does not fail, and the document it writes is
  the empty list: the file holds \<^verbatim>\<open>[]\<close>.
\<close>

theorem short_trajectory_empty_output:
  assumes short: "length traj \<le> 1"
    and count: "0 < num_episodes (simulation_metadata (config self)) *
                    num_steps_per_episode (simulation_metadata (config self))"
    and rep: "representable ext self now"
    and geodata: "can_open ext (name (simulation_metadata (config self)) @ ''.geojson'')"
    and geoplot: "can_open ext (name (simulation_metadata (config self)) @ ''.html'')"
  shows "snd (render ext self traj now fs) = Inr () \<and>
         (\<exists>ts. render_geojsons ext self traj now = Inr (ts, [])) \<and>
         geojson_file self (render ext self traj now fs) = Some (Text ''[]'')"
proof -
  have red: "reduce_trajectory ext self traj = Inr (Arr [], [])"
    using short by (rule reduce_trajectory_short)
  from representable_timestamps [OF rep] obtain ts
    where ts: "make_timestamps ext self now = Inr ts"
    by blast
  from make_timestamps_length [OF ts] count have ne: "ts \<noteq> []"
    by auto
  have "build_geojsons (Arr []) ts [] = Inr ([] :: 'b FeatureCollection list)"
    by (simp add: build_geojsons_def enumerate_eq_zip)
  with red ts have run: "render_geojsons ext self traj now = Inr (ts, [])"
    by (simp add: render_geojsons_def)
  have "json_dump (scalar_text ext) [] = ''[]''"
    by (simp add: json_dump_def geojsons_json_def)
  with render_geojson_file [OF run, of fs] geodata
  have "geojson_file self (render ext self traj now fs) = Some (Text ''[]'')"
    by simp
  moreover from run ne geodata geoplot have "snd (render ext self traj now fs) = Inr ()"
    by (simp add: render_outcome)
  ultimately show ?thesis using run by blast
qed

theorem short_trajectory_empty_output_witness:
  "length [[example_snapshot (Arr [Scalar 10, Scalar 20])]] \<le> 1 \<and>
   representable example_externals (example_plot 3 1) 0 \<and>
   snd (render example_externals (example_plot 3 1)
          [[example_snapshot (Arr [Scalar 10, Scalar 20])]] 0 Map.empty) = Inr () \<and>
   geojson_file (example_plot 3 1)
     (render example_externals (example_plot 3 1)
        [[example_snapshot (Arr [Scalar 10, Scalar 20])]] 0 Map.empty) =
     Some (Text ''[]'') \<and>
   snd (render example_externals (example_plot 3 1) [] 0 Map.empty) = Inr () \<and>
   geojson_file (example_plot 3 1)
     (render example_externals (example_plot 3 1) [] 0 Map.empty) = Some (Text ''[]'')"
proof -
  have rep: "representable example_externals (example_plot 3 1) 0"
    by code_simp
  have count: "0 < num_episodes (simulation_metadata (config (example_plot 3 1))) *
      num_steps_per_episode (simulation_metadata (config (example_plot 3 1)))"
    by (simp add: example_plot_def example_config_def)
  have opens: "can_open example_externals
      (name (simulation_metadata (config (example_plot 3 1))) @ ''.geojson'')"
    "can_open example_externals
      (name (simulation_metadata (config (example_plot 3 1))) @ ''.html'')"
    by (simp_all add: example_externals_def)
  have one: "length [[example_snapshot (Arr [Scalar 10, Scalar 20])]] \<le> 1"
    and none: "length ([] :: int nd snapshot list list) \<le> 1"
    by simp_all
  from short_trajectory_empty_output [OF one count rep opens, of Map.empty]
    short_trajectory_empty_output [OF none count rep opens, of Map.empty] one rep
  show ?thesis by blast
qed

text \<open>
  Claim C7 as stated fails. With an empty trajectory and two timestamp slots, a step of
  \<open>10^13\<close> seconds makes \<^verbatim>\<open>render\<close> raise the range error of pandas before it writes
  anything; with three slots and a step that is a string, it raises \<^verbatim>\<open>TypeError\<close>.
\<close>

theorem short_trajectory_fails_counterexample:
  "snd (render example_externals ((example_plot 2 1)\<lparr>step_time := Num 10000000000000\<rparr>)
          [] 0 Map.empty) = Inl OutOfBounds \<and>
   geojson_file ((example_plot 2 1)\<lparr>step_time := Num 10000000000000\<rparr>)
     (render example_externals ((example_plot 2 1)\<lparr>step_time := Num 10000000000000\<rparr>)
        [] 0 Map.empty) = None \<and>
   snd (render example_externals ((example_plot 3 1)\<lparr>step_time := Str ''hourly''\<rparr>)
          [] 0 Map.empty) = Inl TypeError"
  by code_simp

subsection \<open>The clock\<close>

text \<open>
  \<^verbatim>\<open>render\<close> reads the clock (\<^verbatim>\<open>pd.Timestamp.utcnow()\<close>) for the first timestamp. Two calls
  that differ in the clock reading only, and in which no addition to the clock reading
  overflows, are related step by step: the same exception, or results that agree up to the
  times.
\<close>

lemma collect_rel:
  "list_all2 (\<lambda>x y. rel_sum (=) R (f x) (g y)) xs ys \<Longrightarrow>
     rel_sum (=) (list_all2 R) (collect f xs) (collect g ys)"
  by (induction rule: list_all2_induct) (auto split: sum.splits)

lemma list_all2_map_eq:
  "list_all2 (\<lambda>x y. h x = h y) xs ys \<Longrightarrow> map h xs = map h ys"
  by (induction rule: list_all2_induct) auto

lemma make_feature_clock:
  "rel_sum (=) (\<lambda>a b. a\<lparr>properties_time := []\<rparr> = b\<lparr>properties_time := []\<rparr>)
     (make_feature i coord (t1, vl)) (make_feature i coord (t2, vl))"
  by (cases coord) (auto simp: make_feature_def list_getitem_def split: sum.splits)

lemma make_collection_clock:
  assumes "length ts1 = length ts2"
  shows "rel_sum (=) (\<lambda>a b. erase_time a = erase_time b)
     (make_collection ts1 vs p) (make_collection ts2 vs p)"
proof -
  obtain i coord where p: "p = (i, coord)" by (cases p)
  let ?R = "\<lambda>a b :: 'a Feature. a\<lparr>properties_time := []\<rparr> = b\<lparr>properties_time := []\<rparr>"
  from assms have "list_all2 (\<lambda>x y. rel_sum (=) ?R (make_feature i coord x) (make_feature i coord y))
     (zip ts1 vs) (zip ts2 vs)"
    by (auto simp: list_all2_conv_all_nth make_feature_clock)
  then have "rel_sum (=) (list_all2 ?R) (collect (make_feature i coord) (zip ts1 vs))
     (collect (make_feature i coord) (zip ts2 vs))"
    by (rule collect_rel)
  then show ?thesis
    by (auto simp: p make_collection_def erase_time_def list_all2_map_eq
        split: sum.splits)
qed

lemma build_geojsons_clock:
  assumes "length ts1 = length ts2"
  shows "rel_sum (=) (\<lambda>a b. map erase_time a = map erase_time b)
     (build_geojsons coords ts1 vs) (build_geojsons coords ts2 vs)"
proof (cases coords)
  case (Scalar a)
  then show ?thesis by (simp add: build_geojsons_def)
next
  case (Arr cs)
  have "list_all2 (\<lambda>x y. rel_sum (=) (\<lambda>a b. erase_time a = erase_time b)
      (make_collection ts1 vs x) (make_collection ts2 vs y)) (enumerate 0 cs) (enumerate 0 cs)"
    using assms by (simp add: list_all2_same make_collection_clock)
  then have "rel_sum (=) (list_all2 (\<lambda>a b. erase_time a = erase_time b))
      (collect (make_collection ts1 vs) (enumerate 0 cs))
      (collect (make_collection ts2 vs) (enumerate 0 cs))"
    by (rule collect_rel)
  then show ?thesis
    by (auto simp: Arr build_geojsons_def list_all2_map_eq elim!: rel_sum.cases)
qed

lemma timestamp_at_clock:
  assumes "case delta_ns ext st i of Inl e \<Rightarrow> True | Inr d \<Rightarrow> \<not> add_overflows t1 d"
    and "case delta_ns ext st i of Inl e \<Rightarrow> True | Inr d \<Rightarrow> \<not> add_overflows t2 d"
  shows "rel_sum (=) (\<lambda>a b. True) (timestamp_at ext st t1 i) (timestamp_at ext st t2 i)"
  using assms by (cases "delta_ns ext st i") (simp_all add: timestamp_at_def)

lemma make_timestamps_clock:
  assumes "no_overflow ext self t1" and "no_overflow ext self t2"
  shows "rel_sum (=) (\<lambda>a b. length a = length b)
     (make_timestamps ext self t1) (make_timestamps ext self t2)"
proof -
  let ?xs = "[0..<nat (num_episodes (simulation_metadata (config self)) *
                       num_steps_per_episode (simulation_metadata (config self)))]"
  have "list_all2 (\<lambda>x y. rel_sum (=) (\<lambda>a b. True) (timestamp_at ext (step_time self) t1 x)
      (timestamp_at ext (step_time self) t2 y)) ?xs ?xs"
    using assms
    by (simp add: list_all2_same no_overflow_def list_all_iff timestamp_at_clock)
  then have "rel_sum (=) (list_all2 (\<lambda>a b. True))
      (collect (timestamp_at ext (step_time self) t1) ?xs)
      (collect (timestamp_at ext (step_time self) t2) ?xs)"
    by (rule collect_rel)
  then show ?thesis
    by (auto simp: make_timestamps_def dest: list_all2_lengthD elim!: rel_sum.cases)
qed

lemma render_geojsons_clock:
  assumes no1: "no_overflow ext self t1" and no2: "no_overflow ext self t2"
  shows "rel_sum (=) (\<lambda>a b. length (fst a) = length (fst b) \<and>
                       map erase_time (snd a) = map erase_time (snd b))
     (render_geojsons ext self traj t1) (render_geojsons ext self traj t2)"
proof (cases "reduce_trajectory ext self traj")
  case (Inl e)
  then show ?thesis by (simp add: render_geojsons_def)
next
  case (Inr r)
  obtain coords vs where r: "reduce_trajectory ext self traj = Inr (coords, vs)"
    using Inr by (cases r) simp
  note clock = make_timestamps_clock [OF no1 no2]
  show ?thesis
  proof (cases "make_timestamps ext self t1")
    case e1: (Inl e)
    with clock have "make_timestamps ext self t2 = Inl e"
      by (cases "make_timestamps ext self t2") simp_all
    with e1 r show ?thesis by (simp add: render_geojsons_def)
  next
    case s1: (Inr ts1)
    with clock obtain ts2
      where s2: "make_timestamps ext self t2 = Inr ts2" and len: "length ts1 = length ts2"
      by (cases "make_timestamps ext self t2") simp_all
    from build_geojsons_clock [OF len, of coords vs] r s1 s2 len show ?thesis
      by (auto simp: render_geojsons_def elim!: rel_sum.cases)
  qed
qed

lemma no_features_erase:
  assumes "map erase_time g1 = map erase_time g2" and "\<forall>fc\<in>set g1. features fc = []"
  shows "g1 = g2"
  using assms
proof (induction g1 arbitrary: g2)
  case Nil
  then show ?case by simp
next
  case (Cons a g1)
  then obtain b g2' where g2: "g2 = b # g2'" by (cases g2) auto
  with Cons.prems have "erase_time a = erase_time b" "features a = []" by auto
  then have "a = b" by (cases a; cases b) (simp add: erase_time_def)
  with Cons g2 show ?case by auto
qed

text \<open>
  Claim C5, as amended. For every pair of \<^verbatim>\<open>render\<close> calls given identical configuration,
  identical trajectories and the same files, reading the clock at \<open>t1\<close> and at \<open>t2\<close>, in
  neither of which the addition of a Timedelta to the clock reading overflows: both calls
  end alike (the same exception, or both return); a call that raises before it writes
  leaves the files as they were; and the documents the two calls build have the same
  number of timestamps behind them and agree in everything but the \<^verbatim>\<open>time\<close> property of
  their Features. The content of the \<^verbatim>\<open>.geojson\<close> file is identical across the two calls
  when both read the same instant, or when the document has no Feature.
\<close>

theorem render_clock_dependence:
  assumes no1: "no_overflow ext self t1" and no2: "no_overflow ext self t2"
  shows "snd (render ext self traj t1 fs) = snd (render ext self traj t2 fs) \<and>
   (\<forall>e. render_geojsons ext self traj t1 = Inl e \<longrightarrow>
      render ext self traj t1 fs = (fs, Inl e) \<and> render ext self traj t2 fs = (fs, Inl e)) \<and>
   (\<forall>ts1 g1. render_geojsons ext self traj t1 = Inr (ts1, g1) \<longrightarrow>
      (\<exists>ts2 g2. render_geojsons ext self traj t2 = Inr (ts2, g2) \<and> length ts2 = length ts1 \<and>
         map erase_time g2 = map erase_time g1 \<and>
         (t1 = t2 \<or> (\<forall>fc\<in>set g1. features fc = []) \<longrightarrow>
            geojson_file self (render ext self traj t1 fs) =
            geojson_file self (render ext self traj t2 fs))))"
proof (intro conjI allI impI)
  note clock = render_geojsons_clock [OF no1 no2, of traj]
  show "snd (render ext self traj t1 fs) = snd (render ext self traj t2 fs)"
    using clock by (auto simp: render_outcome elim!: rel_sum.cases)
  {
    fix e assume e: "render_geojsons ext self traj t1 = Inl e"
    with clock have "render_geojsons ext self traj t2 = Inl e"
      by (cases "render_geojsons ext self traj t2") simp_all
    with e show "render ext self traj t1 fs = (fs, Inl e)"
      and "render ext self traj t2 fs = (fs, Inl e)"
      by (simp_all add: render_def)
  }
  fix ts1 g1 assume r1: "render_geojsons ext self traj t1 = Inr (ts1, g1)"
  with clock obtain ts2 g2 where r2: "render_geojsons ext self traj t2 = Inr (ts2, g2)"
    and len: "length ts2 = length ts1"
    and eq: "map erase_time g2 = map erase_time g1"
    by (cases "render_geojsons ext self traj t2") auto
  have "geojson_file self (render ext self traj t1 fs) =
        geojson_file self (render ext self traj t2 fs)"
    if c: "t1 = t2 \<or> (\<forall>fc\<in>set g1. features fc = [])"
  proof -
    from c r1 r2 eq have "g1 = g2"
      by (auto dest: no_features_erase [OF sym])
    with r1 r2 show ?thesis
      by (simp add: render_geojson_file)
  qed
  with r2 len eq
  show "\<exists>ts2 g2. render_geojsons ext self traj t2 = Inr (ts2, g2) \<and> length ts2 = length ts1 \<and>
         map erase_time g2 = map erase_time g1 \<and>
         (t1 = t2 \<or> (\<forall>fc\<in>set g1. features fc = []) \<longrightarrow>
            geojson_file self (render ext self traj t1 fs) =
            geojson_file self (render ext self traj t2 fs))"
    by blast
qed

theorem render_clock_dependence_witness:
  "no_overflow example_externals (example_plot 3 1) 0 \<and>
   no_overflow example_externals (example_plot 3 1) 1000000000 \<and>
   snd (render example_externals (example_plot 3 1) example_trajectory 0 Map.empty) =
   snd (render example_externals (example_plot 3 1) example_trajectory 1000000000 Map.empty) \<and>
   (\<exists>ts1 g1 ts2 g2.
      render_geojsons example_externals (example_plot 3 1) example_trajectory 0 =
        Inr (ts1, g1) \<and>
      render_geojsons example_externals (example_plot 3 1) example_trajectory 1000000000 =
        Inr (ts2, g2) \<and>
      length ts2 = length ts1 \<and> map erase_time g2 = map erase_time g1) \<and>
   render_geojsons example_externals (example_plot 3 1) [] 0 =
     Inr ([0, 3600000000000, 7200000000000], [] :: int FeatureCollection list) \<and>
   geojson_file (example_plot 3 1)
     (render example_externals (example_plot 3 1) [] 0 Map.empty) =
   geojson_file (example_plot 3 1)
     (render example_externals (example_plot 3 1) [] 1000000000 Map.empty)"
proof -
  let ?P = "example_plot 3 1"
  have no1: "no_overflow example_externals ?P 0"
    and no2: "no_overflow example_externals ?P 1000000000"
    by code_simp+
  note inst = render_clock_dependence [OF no1 no2, of _ Map.empty]
  have "\<not> isl (render_geojsons example_externals ?P example_trajectory 0)"
    by code_simp
  then obtain ts1 g1 where r1: "render_geojsons example_externals ?P example_trajectory 0 =
      Inr (ts1, g1)"
    by (cases "render_geojsons example_externals ?P example_trajectory 0") auto
  with inst [of example_trajectory]
  have a: "\<exists>ts1 g1 ts2 g2.
      render_geojsons example_externals ?P example_trajectory 0 = Inr (ts1, g1) \<and>
      render_geojsons example_externals ?P example_trajectory 1000000000 = Inr (ts2, g2) \<and>
      length ts2 = length ts1 \<and> map erase_time g2 = map erase_time g1"
    by blast
  have r0: "render_geojsons example_externals ?P [] 0 =
     Inr ([0, 3600000000000, 7200000000000], [] :: int FeatureCollection list)"
    by code_simp
  with inst [of "[]"]
  have b: "geojson_file ?P (render example_externals ?P [] 0 Map.empty) =
     geojson_file ?P (render example_externals ?P [] 1000000000 Map.empty)"
    by fastforce
  from inst [of example_trajectory] a r0 b no1 no2 show ?thesis
    by (intro conjI) blast+
qed

text \<open>
  Claim C5 as stated fails. The example scenario rendered at the epoch and one second
  later, from the same configuration and trajectory and an empty file system, leaves
  different bytes in the \<^verbatim>\<open>.geojson\<close> file: the \<^verbatim>\<open>time\<close> of every Feature is one second
  later.
\<close>

theorem render_clock_counterexample:
  "geojson_file (example_plot 3 1)
     (render example_externals (example_plot 3 1) example_trajectory 0 Map.empty) \<noteq>
   geojson_file (example_plot 3 1)
     (render example_externals (example_plot 3 1) example_trajectory 1000000000 Map.empty)"
  by code_simp

end
